theory Spec2Isabelle
  imports Complex_Main
begin

section \<open>Denavit-Hartenberg link descriptors (roboticstoolbox/robot/DHLink.py)\<close>

text \<open>
  The development follows \<^verbatim>\<open>DHLink.py\<close>. Python floats are idealised as
  \<^typ>\<open>real\<close>, so \<^verbatim>\<open>np.sin\<close> and \<^verbatim>\<open>np.cos\<close> are the real sine and
  cosine. The joint type \<^verbatim>\<open>sigma\<close> is a Python integer. An exception is a value
  \<open>Inl e\<close> of a sum type; a method that mutates \<^verbatim>\<open>self\<close> takes the object and
  returns it updated, next to its result.
\<close>

subsection \<open>Errors and objects\<close>

text \<open>
  \<open>ValueError\<close> and \<open>TypeError\<close> carry the message of the source;
  \<open>AttributeError\<close> carries the name of the attribute that is read before it is set;
  \<open>IndexError\<close> is a list index out of range.
\<close>

datatype error = ValueError string | TypeError string | AttributeError string | IndexError

text \<open>The values the source passes as \<^verbatim>\<open>mdh\<close>: a bool (the default is False) or an int.\<close>

datatype pyval = PyBool bool | PyInt int

text \<open>Python's \<^verbatim>\<open>int(x)\<close> on these values.\<close>

fun py_int :: "pyval \<Rightarrow> int" where
  "py_int (PyBool b) = (if b then 1 else 0)"
| "py_int (PyInt n) = n"

text \<open>
  A \<^verbatim>\<open>DHLink\<close> object. The fields \<open>offset\<close>, \<open>qlim\<close> and \<open>flip\<close> belong to the
  base class \<^verbatim>\<open>Link\<close>. The private attributes \<^verbatim>\<open>_d\<close>, \<^verbatim>\<open>_alpha\<close>, \<^verbatim>\<open>_theta\<close>,
  \<^verbatim>\<open>_a\<close>, \<^verbatim>\<open>_sigma\<close>, \<^verbatim>\<open>_mdh\<close> and the public \<^verbatim>\<open>id\<close> do not exist until they
  are assigned: \<open>None\<close> is an attribute that is not there yet. The attribute \<^verbatim>\<open>id\<close> holds
  Python's None or an index, hence the second option.
\<close>

record dhlink =
  offset :: real
  qlim :: "real \<times> real"
  flip :: bool
  attr_d :: "real option"
  attr_alpha :: "real option"
  attr_theta :: "real option"
  attr_a :: "real option"
  attr_sigma :: "int option"
  attr_mdh :: "int option"
  attr_id :: "int option option"

text \<open>
  Modelled from the spec: the constructor of the base class \<^verbatim>\<open>Link\<close> is not part of
  \<^verbatim>\<open>DHLink.py\<close>. The spec's "link base" holds \<open>offset\<close>, \<open>flip\<close> and the limits; the
  object it leaves has none of the kinematic attributes yet.
\<close>

definition Link_init :: "real \<Rightarrow> real \<times> real \<Rightarrow> bool \<Rightarrow> dhlink" where
  "Link_init off ql fl =
     \<lparr>offset = off, qlim = ql, flip = fl,
      attr_d = None, attr_alpha = None, attr_theta = None, attr_a = None,
      attr_sigma = None, attr_mdh = None, attr_id = None\<rparr>"

subsection \<open>Properties: getters\<close>

definition get_d :: "dhlink \<Rightarrow> error + real" where
  "get_d self = (case attr_d self of None \<Rightarrow> Inl (AttributeError ''_d'') | Some v \<Rightarrow> Inr v)"

definition get_alpha :: "dhlink \<Rightarrow> error + real" where
  "get_alpha self =
     (case attr_alpha self of None \<Rightarrow> Inl (AttributeError ''_alpha'') | Some v \<Rightarrow> Inr v)"

definition get_theta :: "dhlink \<Rightarrow> error + real" where
  "get_theta self =
     (case attr_theta self of None \<Rightarrow> Inl (AttributeError ''_theta'') | Some v \<Rightarrow> Inr v)"

definition get_a :: "dhlink \<Rightarrow> error + real" where
  "get_a self = (case attr_a self of None \<Rightarrow> Inl (AttributeError ''_a'') | Some v \<Rightarrow> Inr v)"

definition get_sigma :: "dhlink \<Rightarrow> error + int" where
  "get_sigma self =
     (case attr_sigma self of None \<Rightarrow> Inl (AttributeError ''_sigma'') | Some v \<Rightarrow> Inr v)"

definition get_mdh :: "dhlink \<Rightarrow> error + int" where
  "get_mdh self =
     (case attr_mdh self of None \<Rightarrow> Inl (AttributeError ''_mdh'') | Some v \<Rightarrow> Inr v)"

subsection \<open>Properties: setters\<close>

text \<open>
  A setter returns its outcome and the object as it is afterwards. The decorator
  \<^verbatim>\<open>_listen_dyn\<close> comes from \<^verbatim>\<open>Link\<close>: it notifies the robot that owns the link and
  touches no attribute of the link, so the setters below are the decorated bodies.
  Python's truth value of the integer \<^verbatim>\<open>self.sigma\<close> is \<open>sigma \<noteq> 0\<close>.
\<close>

type_synonym 'a stmt = "dhlink \<Rightarrow> (error + 'a) \<times> dhlink"

definition set_d :: "real \<Rightarrow> unit stmt" where
  "set_d d_new self =
     (case get_sigma self of
        Inl e \<Rightarrow> (Inl e, self)
      | Inr sigma \<Rightarrow>
          if sigma \<noteq> 0 \<and> d_new \<noteq> 0
          then (Inl (ValueError ''f is not valid for prismatic joints''), self)
          else (Inr (), self\<lparr>attr_d := Some d_new\<rparr>))"

definition set_alpha :: "real \<Rightarrow> unit stmt" where
  "set_alpha alpha_new self = (Inr (), self\<lparr>attr_alpha := Some alpha_new\<rparr>)"

definition set_theta :: "real \<Rightarrow> unit stmt" where
  "set_theta theta_new self =
     (case get_sigma self of
        Inl e \<Rightarrow> (Inl e, self)
      | Inr sigma \<Rightarrow>
          if \<not> sigma \<noteq> 0 \<and> theta_new \<noteq> 0
          then (Inl (ValueError ''theta is not valid for revolute joints''), self)
          else (Inr (), self\<lparr>attr_theta := Some theta_new\<rparr>))"

definition set_a :: "real \<Rightarrow> unit stmt" where
  "set_a a_new self = (Inr (), self\<lparr>attr_a := Some a_new\<rparr>)"

definition set_sigma :: "int \<Rightarrow> unit stmt" where
  "set_sigma sigma_new self = (Inr (), self\<lparr>attr_sigma := Some sigma_new\<rparr>)"

definition set_mdh :: "pyval \<Rightarrow> unit stmt" where
  "set_mdh mdh_new self = (Inr (), self\<lparr>attr_mdh := Some (py_int mdh_new)\<rparr>)"

text \<open>The plain attribute assignment \<^verbatim>\<open>self.id = ...\<close>.\<close>

definition set_id :: "int option \<Rightarrow> unit stmt" where
  "set_id id_new self = (Inr (), self\<lparr>attr_id := Some id_new\<rparr>)"

subsection \<open>Construction\<close>

text \<open>Statement sequencing: the second statement runs only if the first did not raise.\<close>

definition then_do :: "unit stmt \<Rightarrow> 'a stmt \<Rightarrow> 'a stmt" where
  "then_do m k self = (case m self of (Inl e, self') \<Rightarrow> (Inl e, self') | (Inr u, self') \<Rightarrow> k self')"

text \<open>
  The body of \<^verbatim>\<open>DHLink.__init__\<close> after \<^verbatim>\<open>super().__init__(**kwargs)\<close>, on the object
  the base class left: the assignments in the order of the source.
\<close>

definition DHLink_init_body ::
  "real \<Rightarrow> real \<Rightarrow> real \<Rightarrow> real \<Rightarrow> int \<Rightarrow> pyval \<Rightarrow> unit stmt" where
  "DHLink_init_body d alpha theta a sigma mdh =
     then_do (set_sigma sigma)
    (then_do (set_theta theta)
    (then_do (set_d d)
    (then_do (set_alpha alpha)
    (then_do (set_a a)
    (then_do (set_mdh mdh)
             (set_id None))))))"

text \<open>
  \<^verbatim>\<open>DHLink.__init__(d, alpha, theta, a, sigma, mdh, **kwargs)\<close>, the keyword arguments
  being those of the base class.
\<close>

definition DHLink_init ::
  "real \<Rightarrow> real \<Rightarrow> real \<Rightarrow> real \<Rightarrow> int \<Rightarrow> pyval \<Rightarrow> real \<Rightarrow> real \<times> real \<Rightarrow> bool
     \<Rightarrow> (error + unit) \<times> dhlink" where
  "DHLink_init d alpha theta a sigma mdh off ql fl =
     DHLink_init_body d alpha theta a sigma mdh (Link_init off ql fl)"

text \<open>
  The expression \<^verbatim>\<open>DHLink(...)\<close> as the caller sees it: the new object, or the
  exception.
\<close>

definition new :: "(error + unit) \<times> dhlink \<Rightarrow> error + dhlink" where
  "new r = (case r of (Inl e, self) \<Rightarrow> Inl e | (Inr u, self) \<Rightarrow> Inr self)"

definition DHLink ::
  "real \<Rightarrow> real \<Rightarrow> real \<Rightarrow> real \<Rightarrow> int \<Rightarrow> pyval \<Rightarrow> real \<Rightarrow> real \<times> real \<Rightarrow> bool
     \<Rightarrow> error + dhlink" where
  "DHLink d alpha theta a sigma mdh off ql fl =
     new (DHLink_init d alpha theta a sigma mdh off ql fl)"

text \<open>The four subclasses fix \<open>sigma\<close>, \<open>mdh\<close> and the parameter that the joint drives.\<close>

definition RevoluteDH :: "real \<Rightarrow> real \<Rightarrow> real \<Rightarrow> real \<Rightarrow> real \<times> real \<Rightarrow> bool \<Rightarrow> error + dhlink" where
  "RevoluteDH d a alpha off ql fl =
     (let theta = 0; sigma = 0; mdh = PyBool False
      in DHLink d alpha theta a sigma mdh off ql fl)"

definition PrismaticDH :: "real \<Rightarrow> real \<Rightarrow> real \<Rightarrow> real \<Rightarrow> real \<times> real \<Rightarrow> bool \<Rightarrow> error + dhlink" where
  "PrismaticDH theta a alpha off ql fl =
     (let d = 0; sigma = 1; mdh = PyBool False
      in DHLink d alpha theta a sigma mdh off ql fl)"

definition RevoluteMDH :: "real \<Rightarrow> real \<Rightarrow> real \<Rightarrow> real \<Rightarrow> real \<times> real \<Rightarrow> bool \<Rightarrow> error + dhlink" where
  "RevoluteMDH d a alpha off ql fl =
     (let theta = 0; sigma = 0; mdh = PyBool True
      in DHLink d alpha theta a sigma mdh off ql fl)"

definition PrismaticMDH :: "real \<Rightarrow> real \<Rightarrow> real \<Rightarrow> real \<Rightarrow> real \<times> real \<Rightarrow> bool \<Rightarrow> error + dhlink" where
  "PrismaticMDH theta a alpha off ql fl =
     (let d = 0; sigma = 1; mdh = PyBool True
      in DHLink d alpha theta a sigma mdh off ql fl)"

text \<open>
  A method call on the result of a constructor expression, as in
  \<^verbatim>\<open>RevoluteDH(...).A(q)\<close>: the exception of the constructor propagates.
\<close>

definition on_new :: "error + dhlink \<Rightarrow> (dhlink \<Rightarrow> error + 'a) \<Rightarrow> error + 'a" where
  "on_new r m = (case r of Inl e \<Rightarrow> Inl e | Inr self \<Rightarrow> m self)"

subsection \<open>The link transform\<close>

text \<open>
  \<^verbatim>\<open>_sin\<close> and \<^verbatim>\<open>_cos\<close> on numbers (the symbolic branch, for SymPy expressions, is
  outside the model).
\<close>

definition sin_f :: "real \<Rightarrow> real" where
  "sin_f theta = sin theta"

definition cos_f :: "real \<Rightarrow> real" where
  "cos_f theta = cos theta"

text \<open>
  \<^verbatim>\<open>DHLink.A\<close>. The attributes are read in the order of the source. The result is the
  4x4 array, a list of four rows; \<^verbatim>\<open>SE3(T, check=False)\<close> wraps it without looking at
  it.
\<close>

definition A :: "dhlink \<Rightarrow> real \<Rightarrow> error + real list list" where
  "A self q =
     (case get_alpha self of
        Inl e \<Rightarrow> Inl e
      | Inr alpha \<Rightarrow>
     (let sa = sin_f alpha;
          ca = cos_f alpha;
          q = (if flip self then - q + offset self else q + offset self)
      in
     (case get_sigma self of
        Inl e \<Rightarrow> Inl e
      | Inr sigma \<Rightarrow>
     (case (if sigma = 0
            then (case get_d self of
                    Inl e \<Rightarrow> Inl e
                  | Inr d \<Rightarrow> Inr (sin_f q, cos_f q, d))
            else (case get_theta self of
                    Inl e \<Rightarrow> Inl e
                  | Inr theta \<Rightarrow> Inr (sin_f theta, cos_f theta, q))) of
        Inl e \<Rightarrow> Inl e
      | Inr (st, ct, d) \<Rightarrow>
     (case get_mdh self of
        Inl e \<Rightarrow> Inl e
      | Inr mdh \<Rightarrow>
     (case get_a self of
        Inl e \<Rightarrow> Inl e
      | Inr a \<Rightarrow>
          if mdh = 0
          then Inr [[ct, - st * ca, st * sa, a * ct],
                    [st, ct * ca, - ct * sa, a * st],
                    [0, sa, ca, d],
                    [0, 0, 0, 1]]
          else Inr [[ct, - st, 0, a],
                    [st * ca, ct * ca, - sa, - sa * d],
                    [st * sa, ct * sa, ca, ca * d],
                    [0, 0, 0, 1]]))))))"

text \<open>The expression \<^verbatim>\<open>C(...).A(q)\<close> for a constructor expression \<^verbatim>\<open>C(...)\<close>.\<close>

definition A_new :: "error + dhlink \<Rightarrow> real \<Rightarrow> error + real list list" where
  "A_new r q = (case r of Inl e \<Rightarrow> Inl e | Inr self \<Rightarrow> A self q)"

definition isrevolute :: "dhlink \<Rightarrow> error + bool" where
  "isrevolute self =
     (case get_sigma self of
        Inl e \<Rightarrow> Inl e
      | Inr sigma \<Rightarrow> if \<not> sigma \<noteq> 0 then Inr True else Inr False)"

definition isprismatic :: "dhlink \<Rightarrow> error + bool" where
  "isprismatic self =
     (case get_sigma self of
        Inl e \<Rightarrow> Inl e
      | Inr sigma \<Rightarrow> if sigma \<noteq> 0 then Inr True else Inr False)"

subsection \<open>Chains and the operator +\<close>

text \<open>
  Links and robots are objects with identity: \<^verbatim>\<open>__add__\<close> puts references to its
  operands into the new robot. The store is the list of the objects allocated so far and
  a reference is a position in it.
\<close>

type_synonym ref = nat

text \<open>
  Modelled from the spec: the class \<^verbatim>\<open>DHRobot\<close> is not part of \<^verbatim>\<open>DHLink.py\<close>. The
  spec's chain owns an ordered sequence of link descriptors and has a name, a
  manufacturer, a base transform, a tool transform and a gravity vector.
\<close>

record dhrobot =
  links :: "ref list"
  name :: string
  manufacturer :: string
  base :: "real list list"
  tool :: "real list list"
  gravity :: "real list"

datatype pyobj = LinkObj dhlink | RobotObj dhrobot | OtherObj

type_synonym store = "pyobj list"

definition lookup :: "store \<Rightarrow> ref \<Rightarrow> pyobj option" where
  "lookup h r = (if r < length h then Some (h ! r) else None)"

text \<open>Modelled from the spec: \<^verbatim>\<open>DHRobot.n\<close>, the number of links of the chain.\<close>

definition robot_n :: "dhrobot \<Rightarrow> nat" where
  "robot_n R = length (links R)"

text \<open>
  Modelled from the spec: the constructor \<^verbatim>\<open>DHRobot(links, name=, manufacturer=, base=,
  tool=, gravity=)\<close> is not part of \<^verbatim>\<open>DHLink.py\<close>. The spec's chain owns the ordered
  sequence of links it is given and assigns their \<open>id\<close>, the position index of the link in
  the chain. The spec does not say whether positions count from 0 or from 1: the index
  of the first position is the parameter \<open>first\<close>. The constructor assigns the ids, in
  order, and then yields a new chain that holds what it is given. A reference that is
  not a link gets no \<open>id\<close>.
\<close>

definition assign_id :: "store \<Rightarrow> ref \<Rightarrow> int \<Rightarrow> store" where
  "assign_id h r i =
     (case lookup h r of
        Some (LinkObj l) \<Rightarrow> h[r := LinkObj (snd (set_id (Some i) l))]
      | _ \<Rightarrow> h)"

fun assign_ids :: "store \<Rightarrow> ref list \<Rightarrow> int \<Rightarrow> store" where
  "assign_ids h [] i = h"
| "assign_ids h (r # rs) i = assign_ids (assign_id h r i) rs (i + 1)"

definition DHRobot ::
  "int \<Rightarrow> store \<Rightarrow> ref list \<Rightarrow> string \<Rightarrow> string \<Rightarrow> real list list \<Rightarrow> real list list
     \<Rightarrow> real list \<Rightarrow> (error + ref) \<times> store" where
  "DHRobot first h L nm manuf bs tol grav =
     (let h' = assign_ids h L first
      in (Inr (length h'),
          h' @ [RobotObj \<lparr>links = L, name = nm, manufacturer = manuf, base = bs, tool = tol,
                           gravity = grav\<rparr>]))"

text \<open>
  The loop \<^verbatim>\<open>for i in range(L.n): nlinks.append(L.links[i])\<close>, over the indices that
  remain; an index out of range raises.
\<close>

fun append_links :: "ref list \<Rightarrow> nat list \<Rightarrow> ref list \<Rightarrow> error + ref list" where
  "append_links ls [] nlinks = Inr nlinks"
| "append_links ls (i # rest) nlinks =
     (if i < length ls then append_links ls rest (nlinks @ [ls ! i])
      else Inl IndexError)"

text \<open>
  \<^verbatim>\<open>DHLink.__add__\<close>. The keyword defaults of \<^verbatim>\<open>DHRobot\<close>, which apply when two
  links are added, are not in \<^verbatim>\<open>DHLink.py\<close>: they are the parameter \<open>dflt\<close>, and
  \<open>first\<close> is the parameter of the constructor.
  The operand is looked up in the store to test its class. A Python reference always
  points to an object; a position outside the store falls into the last branch.
\<close>

definition add ::
  "int \<Rightarrow> dhrobot \<Rightarrow> store \<Rightarrow> ref \<Rightarrow> ref \<Rightarrow> (error + ref) \<times> store" where
  "add first dflt h self L =
     (case lookup h L of
        Some (LinkObj l) \<Rightarrow>
          DHRobot first h [self, L] (name dflt) (manufacturer dflt) (base dflt) (tool dflt)
            (gravity dflt)
      | Some (RobotObj R) \<Rightarrow>
          (case append_links (links R) [0..<robot_n R] [self] of
             Inl e \<Rightarrow> (Inl e, h)
           | Inr nlinks \<Rightarrow>
               DHRobot first h nlinks (name R) (manufacturer R) (base R) (tool R)
                 (gravity R))
      | _ \<Rightarrow> (Inl (TypeError ''Cannot add a Link with a non Link object''), h))"

subsection \<open>Assignments after construction\<close>

text \<open>
  The assignments a caller can make to a link through \<^verbatim>\<open>DHLink\<close>: the six property
  setters and the attribute \<^verbatim>\<open>id\<close>.
\<close>

datatype mutation =
  SetD real | SetAlpha real | SetTheta real | SetA real | SetSigma int | SetMdh pyval
| SetId "int option"

fun mutate :: "mutation \<Rightarrow> unit stmt" where
  "mutate (SetD v) = set_d v"
| "mutate (SetAlpha v) = set_alpha v"
| "mutate (SetTheta v) = set_theta v"
| "mutate (SetA v) = set_a v"
| "mutate (SetSigma v) = set_sigma v"
| "mutate (SetMdh v) = set_mdh v"
| "mutate (SetId v) = set_id v"

text \<open>
  A run of assignments, each in a \<^verbatim>\<open>try\<close>: one that raises is skipped and the next one
  finds the object as the failed one left it.
\<close>

fun mutate_all :: "mutation list \<Rightarrow> dhlink \<Rightarrow> dhlink" where
  "mutate_all [] self = self"
| "mutate_all (m # ms) self = mutate_all ms (snd (mutate m self))"

subsection \<open>The specification's notions\<close>

text \<open>A descriptor is an object on which all six kinematic attributes are assigned.\<close>

definition has_attributes :: "dhlink \<Rightarrow> bool" where
  "has_attributes self =
     (attr_d self \<noteq> None \<and> attr_alpha self \<noteq> None \<and> attr_theta self \<noteq> None \<and>
      attr_a self \<noteq> None \<and> attr_sigma self \<noteq> None \<and> attr_mdh self \<noteq> None)"

text \<open>
  The invariant of the data model: \<open>d\<close> is 0 for a prismatic joint and \<open>theta\<close> is 0 for a
  revolute joint.
\<close>

definition joint_invariant :: "dhlink \<Rightarrow> bool" where
  "joint_invariant self =
     ((isprismatic self = Inr True \<longrightarrow> get_d self = Inr 0) \<and>
      (isrevolute self = Inr True \<longrightarrow> get_theta self = Inr 0))"

text \<open>
  Two objects of the store that differ at most in the \<open>id\<close> of a link: the chain may
  assign the \<open>id\<close>, and nothing else of an operand may change.
\<close>

fun same_but_id :: "pyobj \<Rightarrow> pyobj \<Rightarrow> bool" where
  "same_but_id (LinkObj l) (LinkObj l') = (l'\<lparr>attr_id := attr_id l\<rparr> = l)"
| "same_but_id ob ob' = (ob = ob')"

text \<open>The transform as the specification words it, step by step.\<close>

definition drive :: "bool \<Rightarrow> real \<Rightarrow> real \<Rightarrow> real" where
  "drive fl off q = (if fl then - q + off else q + off)"

definition standard_DH :: "real \<Rightarrow> real \<Rightarrow> real \<Rightarrow> real \<Rightarrow> real \<Rightarrow> real \<Rightarrow> real list list" where
  "standard_DH st ct sa ca a d =
     [[ct, - st * ca, st * sa, a * ct],
      [st, ct * ca, - ct * sa, a * st],
      [0, sa, ca, d],
      [0, 0, 0, 1]]"

definition modified_DH :: "real \<Rightarrow> real \<Rightarrow> real \<Rightarrow> real \<Rightarrow> real \<Rightarrow> real \<Rightarrow> real list list" where
  "modified_DH st ct sa ca a d =
     [[ct, - st, 0, a],
      [st * ca, ct * ca, - sa, - sa * d],
      [st * sa, ct * sa, ca, ca * d],
      [0, 0, 0, 1]]"

definition A_spec ::
  "bool \<Rightarrow> real \<Rightarrow> int \<Rightarrow> int \<Rightarrow> real \<Rightarrow> real \<Rightarrow> real \<Rightarrow> real \<Rightarrow> real \<Rightarrow> real list list" where
  "A_spec fl off sigma mdh d alpha theta a q =
     (let q' = drive fl off q;
          st = (if sigma = 0 then sin q' else sin theta);
          ct = (if sigma = 0 then cos q' else cos theta);
          dist = (if sigma = 0 then d else q');
          sa = sin alpha;
          ca = cos alpha
      in if mdh = 0 then standard_DH st ct sa ca a dist else modified_DH st ct sa ca a dist)"

text \<open>
  The field an error message names: the messages have the form
  "<field> is not valid for ... joints", so it is the first word.
\<close>

definition error_field :: "error \<Rightarrow> string" where
  "error_field e =
     (case e of ValueError msg \<Rightarrow> takeWhile (\<lambda>c. c \<noteq> CHR '' '') msg | _ \<Rightarrow> [])"

section \<open>Properties\<close>

subsection \<open>Evaluation lemmas\<close>

lemmas getters = get_d_def get_alpha_def get_theta_def get_a_def get_sigma_def get_mdh_def

lemmas setters =
  set_d_def set_alpha_def set_theta_def set_a_def set_sigma_def set_mdh_def set_id_def

text \<open>
  What \<^verbatim>\<open>__init__\<close> does, in closed form: it fails on \<open>theta\<close> with only \<open>sigma\<close>
  assigned, or on \<open>d\<close> with \<open>sigma\<close> and \<open>theta\<close> assigned, or it assigns all seven
  attributes.
\<close>

lemma DHLink_init_eq:
  "DHLink_init d alpha theta a sigma mdh off ql fl =
     (if sigma = 0 \<and> theta \<noteq> 0
      then (Inl (ValueError ''theta is not valid for revolute joints''),
            (Link_init off ql fl)\<lparr>attr_sigma := Some sigma\<rparr>)
      else if sigma \<noteq> 0 \<and> d \<noteq> 0
      then (Inl (ValueError ''f is not valid for prismatic joints''),
            (Link_init off ql fl)\<lparr>attr_sigma := Some sigma, attr_theta := Some theta\<rparr>)
      else (Inr (),
            \<lparr>offset = off, qlim = ql, flip = fl,
             attr_d = Some d, attr_alpha = Some alpha, attr_theta = Some theta,
             attr_a = Some a, attr_sigma = Some sigma, attr_mdh = Some (py_int mdh),
             attr_id = Some None\<rparr>))"
  by (simp add: DHLink_init_def DHLink_init_body_def then_do_def setters getters Link_init_def)

lemma DHLink_eq:
  "DHLink d alpha theta a sigma mdh off ql fl =
     (if sigma = 0 \<and> theta \<noteq> 0
      then Inl (ValueError ''theta is not valid for revolute joints'')
      else if sigma \<noteq> 0 \<and> d \<noteq> 0
      then Inl (ValueError ''f is not valid for prismatic joints'')
      else Inr \<lparr>offset = off, qlim = ql, flip = fl,
             attr_d = Some d, attr_alpha = Some alpha, attr_theta = Some theta,
             attr_a = Some a, attr_sigma = Some sigma, attr_mdh = Some (py_int mdh),
             attr_id = Some None\<rparr>)"
  by (simp add: DHLink_def new_def DHLink_init_eq)

text \<open>\<^verbatim>\<open>A\<close> on an object that has its six kinematic attributes.\<close>

lemma A_eval:
  assumes "attr_d self = Some d" and "attr_alpha self = Some alpha"
    and "attr_theta self = Some theta" and "attr_a self = Some a"
    and "attr_sigma self = Some sigma" and "attr_mdh self = Some mdh"
  shows "A self q =
     Inr (let q' = (if flip self then - q + offset self else q + offset self);
              st = (if sigma = 0 then sin q' else sin theta);
              ct = (if sigma = 0 then cos q' else cos theta);
              dist = (if sigma = 0 then d else q')
          in if mdh = 0 then standard_DH st ct (sin alpha) (cos alpha) a dist
             else modified_DH st ct (sin alpha) (cos alpha) a dist)"
  using assms
  by (simp add: A_def getters sin_f_def cos_f_def standard_DH_def modified_DH_def Let_def)

lemma RevoluteDH_eq:
  "RevoluteDH d a alpha off ql fl =
     Inr \<lparr>offset = off, qlim = ql, flip = fl,
          attr_d = Some d, attr_alpha = Some alpha, attr_theta = Some 0,
          attr_a = Some a, attr_sigma = Some 0, attr_mdh = Some 0, attr_id = Some None\<rparr>"
  by (simp add: RevoluteDH_def DHLink_eq)

lemma PrismaticDH_eq:
  "PrismaticDH theta a alpha off ql fl =
     Inr \<lparr>offset = off, qlim = ql, flip = fl,
          attr_d = Some 0, attr_alpha = Some alpha, attr_theta = Some theta,
          attr_a = Some a, attr_sigma = Some 1, attr_mdh = Some 0, attr_id = Some None\<rparr>"
  by (simp add: PrismaticDH_def DHLink_eq)

lemma RevoluteMDH_eq:
  "RevoluteMDH d a alpha off ql fl =
     Inr \<lparr>offset = off, qlim = ql, flip = fl,
          attr_d = Some d, attr_alpha = Some alpha, attr_theta = Some 0,
          attr_a = Some a, attr_sigma = Some 0, attr_mdh = Some 1, attr_id = Some None\<rparr>"
  by (simp add: RevoluteMDH_def DHLink_eq)

lemma PrismaticMDH_eq:
  "PrismaticMDH theta a alpha off ql fl =
     Inr \<lparr>offset = off, qlim = ql, flip = fl,
          attr_d = Some 0, attr_alpha = Some alpha, attr_theta = Some theta,
          attr_a = Some a, attr_sigma = Some 1, attr_mdh = Some 1, attr_id = Some None\<rparr>"
  by (simp add: PrismaticMDH_def DHLink_eq)

lemma A_new_RevoluteDH:
  "A_new (RevoluteDH d a alpha off ql fl) q =
     Inr (standard_DH (sin (drive fl off q)) (cos (drive fl off q)) (sin alpha) (cos alpha) a d)"
  by (simp add: A_new_def RevoluteDH_eq A_eval drive_def Let_def)

lemma A_new_RevoluteMDH:
  "A_new (RevoluteMDH d a alpha off ql fl) q =
     Inr (modified_DH (sin (drive fl off q)) (cos (drive fl off q)) (sin alpha) (cos alpha) a d)"
  by (simp add: A_new_def RevoluteMDH_eq A_eval drive_def Let_def)

text \<open>The outcome of the two validating setters once \<open>sigma\<close> is assigned.\<close>

lemma set_d_outcome:
  "attr_sigma self = Some sigma \<Longrightarrow>
   set_d d_new self =
     (if sigma \<noteq> 0 \<and> d_new \<noteq> 0
      then (Inl (ValueError ''f is not valid for prismatic joints''), self)
      else (Inr (), self\<lparr>attr_d := Some d_new\<rparr>))"
  by (simp add: set_d_def get_sigma_def)

lemma set_theta_outcome:
  "attr_sigma self = Some sigma \<Longrightarrow>
   set_theta theta_new self =
     (if sigma = 0 \<and> theta_new \<noteq> 0
      then (Inl (ValueError ''theta is not valid for revolute joints''), self)
      else (Inr (), self\<lparr>attr_theta := Some theta_new\<rparr>))"
  by (simp add: set_theta_def get_sigma_def)

lemma set_alpha_a_outcome:
  "set_alpha v self = (Inr (), self\<lparr>attr_alpha := Some v\<rparr>) \<and>
   set_a v self = (Inr (), self\<lparr>attr_a := Some v\<rparr>)"
  by (simp add: set_alpha_def set_a_def)

lemma mutate_failure_unchanged: "fst (mutate m self) = Inl e \<Longrightarrow> snd (mutate m self) = self"
  by (cases m) (auto simp: setters split: sum.splits if_splits)

text \<open>Construction assigns all six attributes and no later assignment removes one.\<close>

lemma DHLink_has_attributes:
  "DHLink d alpha theta a sigma mdh off ql fl = Inr l \<Longrightarrow> has_attributes l"
  by (auto simp: DHLink_eq has_attributes_def split: if_splits)

lemma mutate_has_attributes: "has_attributes self \<Longrightarrow> has_attributes (snd (mutate m self))"
  by (cases m) (auto simp: has_attributes_def setters getters split: option.splits)

lemma mutate_all_has_attributes: "has_attributes self \<Longrightarrow> has_attributes (mutate_all ms self)"
proof (induction ms arbitrary: self)
  case Nil
  then show ?case by simp
next
  case (Cons m ms)
  from Cons.prems have "has_attributes (snd (mutate m self))"
    by (rule mutate_has_attributes)
  then show ?case by (simp add: Cons.IH)
qed

text \<open>So \<^verbatim>\<open>A\<close> returns a matrix on every descriptor, however it has been reassigned.\<close>

lemma A_returns_on_descriptors:
  assumes "DHLink d alpha theta a sigma mdh off ql fl = Inr l"
  shows "\<exists>M. A (mutate_all ms l) q = Inr M"
proof -
  from assms have "has_attributes (mutate_all ms l)"
    by (simp add: DHLink_has_attributes mutate_all_has_attributes)
  then obtain d' alpha' theta' a' sigma' mdh' where
    "attr_d (mutate_all ms l) = Some d'" and "attr_alpha (mutate_all ms l) = Some alpha'" and
    "attr_theta (mutate_all ms l) = Some theta'" and "attr_a (mutate_all ms l) = Some a'" and
    "attr_sigma (mutate_all ms l) = Some sigma'" and "attr_mdh (mutate_all ms l) = Some mdh'"
    by (auto simp: has_attributes_def)
  then show ?thesis
    by (simp add: A_eval)
qed

lemma sigma_queries:
  "attr_sigma self = Some s \<Longrightarrow> isrevolute self = Inr (s = 0) \<and> isprismatic self = Inr (s \<noteq> 0)"
  by (simp add: isrevolute_def isprismatic_def get_sigma_def)

lemma joint_invariant_eq:
  "joint_invariant self =
     (case attr_sigma self of
        None \<Rightarrow> True
      | Some s \<Rightarrow> if s \<noteq> 0 then attr_d self = Some 0 else attr_theta self = Some 0)"
  by (auto simp: joint_invariant_def isrevolute_def isprismatic_def getters split: option.splits)

subsection \<open>The transform\<close>

text \<open>
  C1. For every descriptor (an object whose six kinematic attributes are assigned) and
  every joint value \<open>q\<close>, \<^verbatim>\<open>A\<close> returns exactly the matrix of the specification: the
  drive variable is \<open>- q + offset\<close> when \<open>flip\<close> is set and \<open>q + offset\<close> otherwise; a
  revolute joint (\<open>sigma = 0\<close>) takes sine and cosine of the drive variable and the
  distance \<open>d\<close>, a prismatic one takes sine and cosine of \<open>theta\<close> and the drive variable
  as distance; \<open>mdh = 0\<close> selects the standard matrix and any other value the modified
  one, with the sine and cosine of \<open>alpha\<close> and the link length \<open>a\<close>.
\<close>

theorem A_matches_spec:
  assumes "attr_d self = Some d" and "attr_alpha self = Some alpha"
    and "attr_theta self = Some theta" and "attr_a self = Some a"
    and "attr_sigma self = Some sigma" and "attr_mdh self = Some mdh"
  shows "A self q = Inr (A_spec (flip self) (offset self) sigma mdh d alpha theta a q)"
  using assms by (simp add: A_eval A_spec_def drive_def Let_def)

theorem A_matches_spec_witness:
  "A \<lparr>offset = 0, qlim = (0, 0), flip = True,
      attr_d = Some 0, attr_alpha = Some 0, attr_theta = Some 0, attr_a = Some 2,
      attr_sigma = Some 1, attr_mdh = Some 1, attr_id = Some None\<rparr> 3
   = Inr [[1, 0, 0, 2], [0, 1, 0, 0], [0, 0, 1, - 3], [0, 0, 0, 1]]"
  using A_matches_spec [of "\<lparr>offset = 0, qlim = (0, 0), flip = True,
      attr_d = Some 0, attr_alpha = Some 0, attr_theta = Some 0, attr_a = Some 2,
      attr_sigma = Some 1, attr_mdh = Some 1, attr_id = Some None\<rparr>" 0 0 0 2 1 1 3]
  by (simp add: A_spec_def drive_def modified_DH_def)

text \<open>
  C6. With \<open>offset = 0\<close>, \<^verbatim>\<open>A\<close> at \<open>q\<close> on a descriptor with \<open>flip\<close> set equals \<^verbatim>\<open>A\<close> at
  \<open>- q\<close> on the same descriptor with \<open>flip\<close> cleared, whatever the joint type and the
  convention are (and an object that lacks an attribute raises the same error on both
  sides).
\<close>

theorem A_flip_is_negation:
  "A (self\<lparr>flip := True, offset := 0\<rparr>) q = A (self\<lparr>flip := False, offset := 0\<rparr>) (- q)"
  by (simp add: A_def getters Let_def cong: sum.case_cong option.case_cong if_cong)

subsection \<open>Construction\<close>

text \<open>
  C10. \<^verbatim>\<open>DHLink()\<close> with no arguments (\<open>d\<close>, \<open>alpha\<close>, \<open>theta\<close>, \<open>a\<close> default to 0.0,
  \<open>sigma\<close> to 0 and \<open>mdh\<close> to False; whatever the base class makes of \<open>offset\<close>, the
  limits and \<open>flip\<close>) succeeds: the descriptor is revolute, \<open>mdh\<close> is stored as 0, the
  four parameters are 0 and \<open>id\<close> is None.
\<close>

theorem DHLink_no_arguments:
  "DHLink 0 0 0 0 0 (PyBool False) off ql fl =
     Inr \<lparr>offset = off, qlim = ql, flip = fl,
          attr_d = Some 0, attr_alpha = Some 0, attr_theta = Some 0, attr_a = Some 0,
          attr_sigma = Some 0, attr_mdh = Some 0, attr_id = Some None\<rparr>
   \<and> on_new (DHLink 0 0 0 0 0 (PyBool False) off ql fl) isrevolute = Inr True
   \<and> on_new (DHLink 0 0 0 0 0 (PyBool False) off ql fl) isprismatic = Inr False"
  by (simp add: DHLink_eq on_new_def isrevolute_def isprismatic_def getters)

text \<open>
  C3 fails as stated. \<^verbatim>\<open>DHLink(theta=1.0)\<close> raises in the setter of \<open>theta\<close>, and by
  then \<^verbatim>\<open>__init__\<close> has assigned \<open>sigma\<close> on the object, which had no \<open>sigma\<close> before.
\<close>

theorem failed_construction_stores_sigma:
  "fst (DHLink_init 0 0 1 0 0 (PyBool False) 0 (0, 0) False)
     = Inl (ValueError ''theta is not valid for revolute joints'')
   \<and> attr_sigma (Link_init 0 (0, 0) False) = None
   \<and> attr_sigma (snd (DHLink_init 0 0 1 0 0 (PyBool False) 0 (0, 0) False)) = Some 0"
  by (simp add: DHLink_init_eq Link_init_def)

text \<open>
  C3, amended. An assignment to a single field that raises leaves the object as it was.
  Construction assigns the fields one after the other, \<open>sigma\<close> first, and validates
  \<open>theta\<close> and \<open>d\<close> against the \<open>sigma\<close> it has assigned: a construction that raises
  has assigned \<open>sigma\<close>, and also \<open>theta\<close> when it is \<open>d\<close> that is rejected, and none of
  \<open>d\<close>, \<open>alpha\<close>, \<open>a\<close>, \<open>mdh\<close>, \<open>id\<close>; the caller gets the error and no object.
\<close>

theorem failure_leaves_fields:
  "(fst (mutate m self) = Inl e \<longrightarrow> snd (mutate m self) = self) \<and>
   (fst (DHLink_init d alpha theta a sigma mdh off ql fl) = Inl e' \<longrightarrow>
      DHLink d alpha theta a sigma mdh off ql fl = Inl e' \<and>
      snd (DHLink_init d alpha theta a sigma mdh off ql fl) =
        (Link_init off ql fl)
          \<lparr>attr_sigma := Some sigma,
           attr_theta := (if sigma = 0 then None else Some theta)\<rparr>)"
  by (auto simp: mutate_failure_unchanged DHLink_init_eq DHLink_eq Link_init_def)

theorem failure_leaves_fields_witness:
  "fst (mutate (SetD 1)
      \<lparr>offset = 0, qlim = (0, 0), flip = False,
       attr_d = Some 0, attr_alpha = Some 0, attr_theta = Some 0, attr_a = Some 0,
       attr_sigma = Some 1, attr_mdh = Some 0, attr_id = Some None\<rparr>)
     = Inl (ValueError ''f is not valid for prismatic joints'')
   \<and> snd (mutate (SetD 1)
      \<lparr>offset = 0, qlim = (0, 0), flip = False,
       attr_d = Some 0, attr_alpha = Some 0, attr_theta = Some 0, attr_a = Some 0,
       attr_sigma = Some 1, attr_mdh = Some 0, attr_id = Some None\<rparr>)
     = \<lparr>offset = 0, qlim = (0, 0), flip = False,
       attr_d = Some 0, attr_alpha = Some 0, attr_theta = Some 0, attr_a = Some 0,
       attr_sigma = Some 1, attr_mdh = Some 0, attr_id = Some None\<rparr>
   \<and> fst (DHLink_init 1 0 2 0 1 (PyBool False) 0 (0, 0) False)
     = Inl (ValueError ''f is not valid for prismatic joints'')
   \<and> DHLink 1 0 2 0 1 (PyBool False) 0 (0, 0) False
     = Inl (ValueError ''f is not valid for prismatic joints'')
   \<and> snd (DHLink_init 1 0 2 0 1 (PyBool False) 0 (0, 0) False)
     = (Link_init 0 (0, 0) False)\<lparr>attr_sigma := Some 1, attr_theta := Some 2\<rparr>"
proof -
  have setter: "fst (mutate (SetD 1)
      \<lparr>offset = 0, qlim = (0, 0), flip = False,
       attr_d = Some 0, attr_alpha = Some 0, attr_theta = Some 0, attr_a = Some 0,
       attr_sigma = Some 1, attr_mdh = Some 0, attr_id = Some None\<rparr>)
     = Inl (ValueError ''f is not valid for prismatic joints'')"
    by (simp add: set_d_outcome)
  have init: "fst (DHLink_init 1 0 2 0 1 (PyBool False) 0 (0, 0) False)
     = Inl (ValueError ''f is not valid for prismatic joints'')"
    by (simp add: DHLink_init_eq)
  show ?thesis
    using setter init
      failure_leaves_fields [where m = "SetD 1" and d = 1 and alpha = 0 and theta = 2
        and a = 0 and sigma = 1 and mdh = "PyBool False" and off = 0 and ql = "(0, 0)"
        and fl = False and e = "ValueError ''f is not valid for prismatic joints''"
        and e' = "ValueError ''f is not valid for prismatic joints''"
        and self = "\<lparr>offset = 0, qlim = (0, 0), flip = False,
          attr_d = Some 0, attr_alpha = Some 0, attr_theta = Some 0, attr_a = Some 0,
          attr_sigma = Some 1, attr_mdh = Some 0, attr_id = Some None\<rparr>"]
    by simp
qed

text \<open>
  C8 fails as stated. \<^verbatim>\<open>PrismaticDH(theta=1.0)\<close> is accepted, since the setter of
  \<open>theta\<close> only rejects a revolute joint: the stored \<open>theta\<close> is 1, and \<^verbatim>\<open>A\<close> uses its
  sine and cosine, which are not 0 and 1.
\<close>

theorem prismatic_theta_not_zero:
  "on_new (PrismaticDH 1 0 0 0 (0, 0) False) get_theta = Inr 1 \<and> (1::real) \<noteq> 0 \<and>
   A_new (PrismaticDH 1 0 0 0 (0, 0) False) 0 =
     Inr [[cos 1, - sin 1, 0, 0], [sin 1, cos 1, 0, 0], [0, 0, 1, 0], [0, 0, 0, 1]] \<and>
   sin (1::real) \<noteq> 0"
proof -
  have "0 < sin (1::real)"
    by (rule sin_gt_zero_02) simp_all
  then show ?thesis
    by (simp add: PrismaticDH_eq on_new_def A_new_def get_theta_def A_eval standard_DH_def
        Let_def)
qed

text \<open>
  C8, amended. For every validly constructed prismatic descriptor (\<open>sigma\<close> not 0, which
  covers \<^verbatim>\<open>PrismaticDH\<close> and \<^verbatim>\<open>PrismaticMDH\<close>), the stored \<open>d\<close> is 0 and the stored
  \<open>theta\<close> is the \<open>theta\<close> the constructor was given, so in \<^verbatim>\<open>A\<close> the prismatic branch
  takes the sine and cosine of that \<open>theta\<close>; they are 0 and 1 when \<open>theta\<close> is left at
  its default 0.
\<close>

theorem prismatic_construction:
  assumes "DHLink d alpha theta a sigma mdh off ql fl = Inr self" and "sigma \<noteq> 0"
  shows "get_theta self = Inr theta \<and> get_d self = Inr 0 \<and>
         A self q =
           Inr (if py_int mdh = 0
                then standard_DH (sin theta) (cos theta) (sin alpha) (cos alpha) a
                       (drive fl off q)
                else modified_DH (sin theta) (cos theta) (sin alpha) (cos alpha) a
                       (drive fl off q)) \<and>
         A_new (PrismaticDH 0 a alpha off ql fl) q =
           Inr (standard_DH 0 1 (sin alpha) (cos alpha) a (drive fl off q)) \<and>
         A_new (PrismaticMDH 0 a alpha off ql fl) q =
           Inr (modified_DH 0 1 (sin alpha) (cos alpha) a (drive fl off q))"
proof -
  from assms have d: "d = 0"
    by (auto simp: DHLink_eq split: if_splits)
  from assms have self: "self =
     \<lparr>offset = off, qlim = ql, flip = fl,
      attr_d = Some 0, attr_alpha = Some alpha, attr_theta = Some theta,
      attr_a = Some a, attr_sigma = Some sigma, attr_mdh = Some (py_int mdh),
      attr_id = Some None\<rparr>"
    by (auto simp: DHLink_eq split: if_splits)
  have stored: "get_theta self = Inr theta \<and> get_d self = Inr 0"
    by (simp add: self getters)
  have transform: "A self q =
           Inr (if py_int mdh = 0
                then standard_DH (sin theta) (cos theta) (sin alpha) (cos alpha) a
                       (drive fl off q)
                else modified_DH (sin theta) (cos theta) (sin alpha) (cos alpha) a
                       (drive fl off q))"
    using assms(2) by (simp add: self A_eval drive_def Let_def)
  have std: "A_new (PrismaticDH 0 a alpha off ql fl) q =
           Inr (standard_DH 0 1 (sin alpha) (cos alpha) a (drive fl off q))"
    by (simp add: A_new_def PrismaticDH_eq A_eval drive_def Let_def)
  have mod: "A_new (PrismaticMDH 0 a alpha off ql fl) q =
           Inr (modified_DH 0 1 (sin alpha) (cos alpha) a (drive fl off q))"
    by (simp add: A_new_def PrismaticMDH_eq A_eval drive_def Let_def)
  from stored transform std mod show ?thesis
    by simp
qed

theorem prismatic_construction_witness:
  "PrismaticDH 1 2 0 0 (0, 0) False =
     Inr \<lparr>offset = 0, qlim = (0, 0), flip = False,
          attr_d = Some 0, attr_alpha = Some 0, attr_theta = Some 1, attr_a = Some 2,
          attr_sigma = Some 1, attr_mdh = Some 0, attr_id = Some None\<rparr>
   \<and> get_theta \<lparr>offset = 0, qlim = (0, 0), flip = False,
          attr_d = Some 0, attr_alpha = Some 0, attr_theta = Some 1, attr_a = Some 2,
          attr_sigma = Some 1, attr_mdh = Some 0, attr_id = Some None\<rparr> = Inr 1
   \<and> A \<lparr>offset = 0, qlim = (0, 0), flip = False,
          attr_d = Some 0, attr_alpha = Some 0, attr_theta = Some 1, attr_a = Some 2,
          attr_sigma = Some 1, attr_mdh = Some 0, attr_id = Some None\<rparr> 5
       = Inr [[cos 1, - sin 1, 0, 2 * cos 1], [sin 1, cos 1, 0, 2 * sin 1],
              [0, 0, 1, 5], [0, 0, 0, 1]]"
proof -
  have built: "DHLink 0 0 1 2 1 (PyBool False) 0 (0, 0) False =
     Inr \<lparr>offset = 0, qlim = (0, 0), flip = False,
          attr_d = Some 0, attr_alpha = Some 0, attr_theta = Some 1, attr_a = Some 2,
          attr_sigma = Some 1, attr_mdh = Some 0, attr_id = Some None\<rparr>"
    by (simp add: DHLink_eq)
  have prismatic: "(1::int) \<noteq> 0"
    by simp
  show ?thesis
    using built prismatic_construction [OF built prismatic, of 5]
    by (simp add: PrismaticDH_def standard_DH_def drive_def)
qed

subsection \<open>Validation in the setters\<close>

text \<open>
  C2. The conditions of the claim hold (\<open>set_d_outcome\<close>, \<open>set_theta_outcome\<close>,
  \<open>set_alpha_a_outcome\<close>), but the error of the setter of \<open>d\<close> does not name its
  field: on a prismatic link, \<^verbatim>\<open>link.d = 1.0\<close> raises with the message
  "f is not valid for prismatic joints", whose field is "f", where the setter of
  \<open>theta\<close> on a revolute link names "theta".
\<close>

theorem set_d_message_names_f:
  "on_new (PrismaticDH 0 0 0 0 (0, 0) False) (fst \<circ> set_d 1)
     = Inl (ValueError ''f is not valid for prismatic joints'')
   \<and> error_field (ValueError ''f is not valid for prismatic joints'') = ''f''
   \<and> on_new (RevoluteDH 0 0 0 0 (0, 0) False) (fst \<circ> set_theta 1)
     = Inl (ValueError ''theta is not valid for revolute joints'')
   \<and> error_field (ValueError ''theta is not valid for revolute joints'') = ''theta''"
  by (simp add: PrismaticDH_eq RevoluteDH_eq on_new_def set_d_outcome set_theta_outcome
      error_field_def)

text \<open>
  C4 fails as stated. \<^verbatim>\<open>RevoluteDH(d=1.0)\<close> satisfies the invariant (it is revolute and
  its \<open>theta\<close> is 0); \<^verbatim>\<open>link.sigma = 1\<close> completes without error and leaves a prismatic
  link whose \<open>d\<close> is 1.
\<close>

theorem set_sigma_breaks_invariant:
  "RevoluteDH 1 0 0 0 (0, 0) False =
     Inr \<lparr>offset = 0, qlim = (0, 0), flip = False,
          attr_d = Some 1, attr_alpha = Some 0, attr_theta = Some 0, attr_a = Some 0,
          attr_sigma = Some 0, attr_mdh = Some 0, attr_id = Some None\<rparr>
   \<and> joint_invariant
       \<lparr>offset = 0, qlim = (0, 0), flip = False,
        attr_d = Some 1, attr_alpha = Some 0, attr_theta = Some 0, attr_a = Some 0,
        attr_sigma = Some 0, attr_mdh = Some 0, attr_id = Some None\<rparr>
   \<and> fst (set_sigma 1
       \<lparr>offset = 0, qlim = (0, 0), flip = False,
        attr_d = Some 1, attr_alpha = Some 0, attr_theta = Some 0, attr_a = Some 0,
        attr_sigma = Some 0, attr_mdh = Some 0, attr_id = Some None\<rparr>) = Inr ()
   \<and> \<not> joint_invariant (snd (set_sigma 1
       \<lparr>offset = 0, qlim = (0, 0), flip = False,
        attr_d = Some 1, attr_alpha = Some 0, attr_theta = Some 0, attr_a = Some 0,
        attr_sigma = Some 0, attr_mdh = Some 0, attr_id = Some None\<rparr>))"
  by (simp add: RevoluteDH_eq joint_invariant_eq set_sigma_def)

text \<open>
  C4, amended. For every object that satisfies the joint-type invariant, the invariant
  still holds after any assignment to \<open>d\<close>, \<open>alpha\<close>, \<open>theta\<close>, \<open>a\<close>, \<open>mdh\<close> (or \<open>id\<close>)
  that completes without error. An assignment to \<open>sigma\<close> is stored without validation:
  after it the invariant holds exactly when the field the new joint type fixes (\<open>d\<close>
  for a prismatic joint, \<open>theta\<close> for a revolute one) is already 0.
\<close>

theorem setters_keep_invariant:
  assumes "joint_invariant self" and "fst (mutate m self) = Inr ()"
  shows "case m of
           SetSigma s \<Rightarrow>
             joint_invariant (snd (mutate m self)) =
               (if s \<noteq> 0 then get_d self = Inr 0 else get_theta self = Inr 0)
         | _ \<Rightarrow> joint_invariant (snd (mutate m self))"
  using assms
  by (cases m) (auto simp: joint_invariant_eq setters getters split: option.splits if_splits)

theorem setters_keep_invariant_witness:
  "joint_invariant
     \<lparr>offset = 0, qlim = (0, 0), flip = False,
      attr_d = Some 0, attr_alpha = Some 0, attr_theta = Some 2, attr_a = Some 0,
      attr_sigma = Some 1, attr_mdh = Some 0, attr_id = Some None\<rparr>
   \<and> fst (mutate (SetTheta 3)
     \<lparr>offset = 0, qlim = (0, 0), flip = False,
      attr_d = Some 0, attr_alpha = Some 0, attr_theta = Some 2, attr_a = Some 0,
      attr_sigma = Some 1, attr_mdh = Some 0, attr_id = Some None\<rparr>) = Inr ()
   \<and> joint_invariant (snd (mutate (SetTheta 3)
     \<lparr>offset = 0, qlim = (0, 0), flip = False,
      attr_d = Some 0, attr_alpha = Some 0, attr_theta = Some 2, attr_a = Some 0,
      attr_sigma = Some 1, attr_mdh = Some 0, attr_id = Some None\<rparr>))"
proof -
  have inv: "joint_invariant
     \<lparr>offset = 0, qlim = (0, 0), flip = False,
      attr_d = Some 0, attr_alpha = Some 0, attr_theta = Some 2, attr_a = Some 0,
      attr_sigma = Some 1, attr_mdh = Some 0, attr_id = Some None\<rparr>"
    by (simp add: joint_invariant_eq)
  have ok: "fst (mutate (SetTheta 3)
     \<lparr>offset = 0, qlim = (0, 0), flip = False,
      attr_d = Some 0, attr_alpha = Some 0, attr_theta = Some 2, attr_a = Some 0,
      attr_sigma = Some 1, attr_mdh = Some 0, attr_id = Some None\<rparr>) = Inr ()"
    by (simp add: set_theta_outcome)
  show ?thesis
    using inv ok setters_keep_invariant [OF inv ok] by simp
qed

subsection \<open>Joint type\<close>

lemma mutate_keeps_sigma_set:
  "attr_sigma self \<noteq> None \<Longrightarrow> attr_sigma (snd (mutate m self)) \<noteq> None"
  by (cases m) (auto simp: setters getters split: option.splits)

lemma mutate_all_keeps_sigma_set:
  "attr_sigma self \<noteq> None \<Longrightarrow> attr_sigma (mutate_all ms self) \<noteq> None"
proof (induction ms arbitrary: self)
  case Nil
  then show ?case by simp
next
  case (Cons m ms)
  from Cons.prems have "attr_sigma (snd (mutate m self)) \<noteq> None"
    by (rule mutate_keeps_sigma_set)
  then show ?case by (simp add: Cons.IH)
qed

text \<open>
  C9. \<^verbatim>\<open>isrevolute\<close> and \<^verbatim>\<open>isprismatic\<close> depend on \<open>sigma\<close> only, and in every state
  a descriptor can reach (constructed, then any assignments, failed or not) both return,
  with opposite answers.
\<close>

theorem joint_type_exclusive:
  "(attr_sigma s1 = attr_sigma s2 \<longrightarrow>
      isrevolute s1 = isrevolute s2 \<and> isprismatic s1 = isprismatic s2) \<and>
   (DHLink d alpha theta a sigma mdh off ql fl = Inr l \<longrightarrow>
      (\<exists>b. isrevolute (mutate_all ms l) = Inr b \<and> isprismatic (mutate_all ms l) = Inr (\<not> b)))"
proof (intro conjI impI)
  assume "attr_sigma s1 = attr_sigma s2"
  then show "isrevolute s1 = isrevolute s2"
    by (simp add: isrevolute_def get_sigma_def)
next
  assume "attr_sigma s1 = attr_sigma s2"
  then show "isprismatic s1 = isprismatic s2"
    by (simp add: isprismatic_def get_sigma_def)
next
  assume "DHLink d alpha theta a sigma mdh off ql fl = Inr l"
  then have "has_attributes l"
    by (rule DHLink_has_attributes)
  then have "attr_sigma l \<noteq> None"
    by (simp add: has_attributes_def)
  then have "attr_sigma (mutate_all ms l) \<noteq> None"
    by (rule mutate_all_keeps_sigma_set)
  then obtain s where "attr_sigma (mutate_all ms l) = Some s"
    by auto
  then have "isrevolute (mutate_all ms l) = Inr (s = 0) \<and>
             isprismatic (mutate_all ms l) = Inr (\<not> s = 0)"
    by (simp add: sigma_queries)
  then show "\<exists>b. isrevolute (mutate_all ms l) = Inr b \<and> isprismatic (mutate_all ms l) = Inr (\<not> b)"
    by blast
qed

theorem joint_type_exclusive_witness:
  "DHLink 0 0 0 0 0 (PyBool False) 0 (0, 0) False =
     Inr \<lparr>offset = 0, qlim = (0, 0), flip = False,
          attr_d = Some 0, attr_alpha = Some 0, attr_theta = Some 0, attr_a = Some 0,
          attr_sigma = Some 0, attr_mdh = Some 0, attr_id = Some None\<rparr>
   \<and> (\<exists>b. isrevolute (mutate_all [SetSigma 1, SetD 5, SetTheta 2]
          \<lparr>offset = 0, qlim = (0, 0), flip = False,
           attr_d = Some 0, attr_alpha = Some 0, attr_theta = Some 0, attr_a = Some 0,
           attr_sigma = Some 0, attr_mdh = Some 0, attr_id = Some None\<rparr>) = Inr b
        \<and> isprismatic (mutate_all [SetSigma 1, SetD 5, SetTheta 2]
          \<lparr>offset = 0, qlim = (0, 0), flip = False,
           attr_d = Some 0, attr_alpha = Some 0, attr_theta = Some 0, attr_a = Some 0,
           attr_sigma = Some 0, attr_mdh = Some 0, attr_id = Some None\<rparr>) = Inr (\<not> b))"
proof -
  have built: "DHLink 0 0 0 0 0 (PyBool False) 0 (0, 0) False =
     Inr \<lparr>offset = 0, qlim = (0, 0), flip = False,
          attr_d = Some 0, attr_alpha = Some 0, attr_theta = Some 0, attr_a = Some 0,
          attr_sigma = Some 0, attr_mdh = Some 0, attr_id = Some None\<rparr>"
    by (simp add: DHLink_eq)
  show ?thesis
    using built
      joint_type_exclusive [where d = 0 and alpha = 0 and theta = 0 and a = 0 and sigma = 0
        and mdh = "PyBool False" and off = 0 and ql = "(0, 0)" and fl = False
        and ms = "[SetSigma 1, SetD 5, SetTheta 2]"
        and l = "\<lparr>offset = 0, qlim = (0, 0), flip = False,
          attr_d = Some 0, attr_alpha = Some 0, attr_theta = Some 0, attr_a = Some 0,
          attr_sigma = Some 0, attr_mdh = Some 0, attr_id = Some None\<rparr>"]
    by blast
qed

subsection \<open>Standard against modified convention\<close>





text \<open>
  In the exact arithmetic of this development a twist of a full turn is no twist: with
  \<open>alpha = 2 * pi\<close>, which is not 0, the two conventions agree also when \<open>d\<close> is not
  0. This is why the condition beside \<open>d\<close> is on the cosine of \<open>alpha\<close>; it is a fact of
  exact arithmetic only.
\<close>

lemma conventions_agree_full_turn:
  "A_new (RevoluteDH 1 0 (2 * pi) 0 (0, 0) False) 0 =
   A_new (RevoluteMDH 1 0 (2 * pi) 0 (0, 0) False) 0"
  by (simp add: A_new_RevoluteDH A_new_RevoluteMDH drive_def standard_DH_def modified_DH_def)



subsection \<open>The operator +\<close>

text \<open>
  Assigning ids keeps the size of the store, changes at most the \<open>id\<close> of a link, and
  changes nothing outside the references it is given.
\<close>

lemma length_assign_id: "length (assign_id h r i) = length h"
  by (simp add: assign_id_def split: option.split pyobj.split)

lemma length_assign_ids: "length (assign_ids h rs i) = length h"
  by (induction rs arbitrary: h i) (simp_all add: length_assign_id)

lemma same_but_id_refl: "same_but_id ob ob"
  by (cases ob) simp_all

lemma same_link_but_id_trans:
  assumes ab: "b\<lparr>attr_id := attr_id a\<rparr> = a" and bc: "c\<lparr>attr_id := attr_id b\<rparr> = b"
  shows "c\<lparr>attr_id := attr_id a\<rparr> = (a::dhlink)"
proof -
  have "c\<lparr>attr_id := attr_id a\<rparr> = (c\<lparr>attr_id := attr_id b\<rparr>)\<lparr>attr_id := attr_id a\<rparr>"
    by simp
  also have "\<dots> = b\<lparr>attr_id := attr_id a\<rparr>"
    by (simp only: bc)
  finally show ?thesis
    by (simp only: ab)
qed

lemma same_but_id_trans: "same_but_id x y \<Longrightarrow> same_but_id y z \<Longrightarrow> same_but_id x z"
  by (cases x; cases y; cases z) (auto intro: same_link_but_id_trans)

lemma assign_id_same: "r < length h \<Longrightarrow> same_but_id (h ! r) (assign_id h r' i ! r)"
  by (cases "r = r'")
     (auto simp: assign_id_def lookup_def set_id_def same_but_id_refl
           split: option.split pyobj.split)

lemma assign_ids_same: "r < length h \<Longrightarrow> same_but_id (h ! r) (assign_ids h rs i ! r)"
proof (induction rs arbitrary: h i)
  case Nil
  then show ?case by (simp add: same_but_id_refl)
next
  case (Cons r' rs)
  have step: "same_but_id (h ! r) (assign_id h r' i ! r)"
    using Cons.prems by (rule assign_id_same)
  have "r < length (assign_id h r' i)"
    using Cons.prems by (simp add: length_assign_id)
  then have "same_but_id (assign_id h r' i ! r) (assign_ids (assign_id h r' i) rs (i + 1) ! r)"
    by (rule Cons.IH)
  with step show ?case
    by (auto intro: same_but_id_trans)
qed

lemma assign_id_other: "r \<noteq> r' \<Longrightarrow> assign_id h r' i ! r = h ! r"
  by (simp add: assign_id_def split: option.split pyobj.split)

lemma assign_ids_other: "r \<notin> set rs \<Longrightarrow> assign_ids h rs i ! r = h ! r"
  by (induction rs arbitrary: h i) (simp_all add: assign_id_other)

lemma lookup_assign_ids_same:
  "r < length h \<Longrightarrow> rel_option same_but_id (lookup h r) (lookup (assign_ids h rs i @ objs) r)"
  by (simp add: lookup_def length_assign_ids nth_append assign_ids_same)

lemma lookup_assign_ids_other:
  "r < length h \<Longrightarrow> r \<notin> set rs \<Longrightarrow> lookup (assign_ids h rs i @ objs) r = lookup h r"
  by (simp add: lookup_def length_assign_ids nth_append assign_ids_other)

lemma assign_ids_position:
  "distinct rs \<Longrightarrow> k < length rs \<Longrightarrow> lookup h (rs ! k) = Some (LinkObj l) \<Longrightarrow>
   lookup (assign_ids h rs i) (rs ! k) = Some (LinkObj (l\<lparr>attr_id := Some (Some (i + int k))\<rparr>))"
proof (induction rs arbitrary: h i k)
  case Nil
  then show ?case by simp
next
  case (Cons r rs)
  show ?case
  proof (cases k)
    case 0
    with Cons.prems have "r \<notin> set rs" and "r < length h" and "h ! r = LinkObj l"
      by (auto simp: lookup_def split: if_splits)
    then show ?thesis
      using 0 by (simp add: lookup_def length_assign_ids assign_ids_other assign_id_def set_id_def length_assign_id)
  next
    case (Suc j)
    with Cons.prems have j: "j < length rs" and d: "distinct rs" and ne: "rs ! j \<noteq> r"
      by auto
    from Cons.prems Suc ne have "lookup (assign_id h r i) (rs ! j) = Some (LinkObj l)"
      by (simp add: lookup_def length_assign_id assign_id_other split: if_splits)
    from Cons.IH [OF d j this, of "i + 1"] show ?thesis
      using Suc by (simp add: add.assoc)
  qed
qed


text \<open>The loop copies the references of the chain, in order, behind what it starts with.\<close>

lemma append_links_from:
  "k \<le> length ls \<Longrightarrow> append_links ls [k..<length ls] acc = Inr (acc @ drop k ls)"
proof (induction "length ls - k" arbitrary: k acc)
  case 0
  then show ?case by simp
next
  case (Suc m)
  then have lt: "k < length ls" by simp
  then have range: "[k..<length ls] = k # [Suc k..<length ls]"
    by (simp add: upt_conv_Cons)
  from Suc lt have "append_links ls [Suc k..<length ls] (acc @ [ls ! k])
      = Inr ((acc @ [ls ! k]) @ drop (Suc k) ls)"
    by simp
  with lt range show ?case
    by (simp add: Cons_nth_drop_Suc)
qed

lemma append_links_all: "append_links (links R) [0..<robot_n R] acc = Inr (acc @ links R)"
  using append_links_from [of 0 "links R" acc] by (simp add: robot_n_def)

lemma add_link:
  "lookup h L = Some (LinkObj l) \<Longrightarrow>
   add first dflt h self L =
     (Inr (length h),
      assign_ids h [self, L] first
      @ [RobotObj \<lparr>links = [self, L], name = name dflt, manufacturer = manufacturer dflt,
                      base = base dflt, tool = tool dflt, gravity = gravity dflt\<rparr>])"
  by (simp add: add_def DHRobot_def Let_def length_assign_id)

lemma add_robot:
  "lookup h L = Some (RobotObj R) \<Longrightarrow>
   add first dflt h self L =
     (Inr (length h),
      assign_ids h (self # links R) first
      @ [RobotObj \<lparr>links = self # links R, name = name R, manufacturer = manufacturer R,
                      base = base R, tool = tool R, gravity = gravity R\<rparr>])"
  by (simp add: add_def DHRobot_def Let_def append_links_all length_assign_ids length_assign_id)

lemma add_other:
  "lookup h L = Some OtherObj \<Longrightarrow>
   add first dflt h self L =
     (Inl (TypeError ''Cannot add a Link with a non Link object''), h)"
  by (simp add: add_def)

lemma add_store: "\<exists>rs objs. snd (add first dflt h self L) = assign_ids h rs first @ objs"
proof (cases "lookup h L")
  case None
  then have "snd (add first dflt h self L) = assign_ids h [] first @ []"
    by (simp add: add_def)
  then show ?thesis by blast
next
  case (Some ob)
  show ?thesis
  proof (cases ob)
    case (LinkObj l)
    with Some show ?thesis
      using add_link [of h L l first dflt self] by (metis snd_conv)
  next
    case (RobotObj R)
    with Some show ?thesis
      using add_robot [of h L R first dflt self] by (metis snd_conv)
  next
    case OtherObj
    with Some have "snd (add first dflt h self L) = assign_ids h [] first @ []"
      by (simp add: add_other)
    then show ?thesis by blast
  qed
qed

text \<open>
  C5 fails as stated: the operands are mutated. With two fresh links in the store,
  \<^verbatim>\<open>linkA + linkB\<close> builds a chain, and the chain assigns the \<open>id\<close> of the links it
  holds: the \<open>id\<close> of \<open>linkA\<close> was None and is 1 afterwards (positions counted from 1).
\<close>

theorem add_assigns_id:
  "lookup [LinkObj \<lparr>offset = 0, qlim = (0, 0), flip = False, attr_d = Some 0, attr_alpha = Some 0,
          attr_theta = Some 0, attr_a = Some 0, attr_sigma = Some 0, attr_mdh = Some 0,
          attr_id = Some None\<rparr>,
        LinkObj \<lparr>offset = 0, qlim = (0, 0), flip = False, attr_d = Some 0, attr_alpha = Some 0,
          attr_theta = Some 0, attr_a = Some 0, attr_sigma = Some 1, attr_mdh = Some 0,
          attr_id = Some None\<rparr>] 0
     = Some (LinkObj \<lparr>offset = 0, qlim = (0, 0), flip = False, attr_d = Some 0, attr_alpha = Some 0,
          attr_theta = Some 0, attr_a = Some 0, attr_sigma = Some 0, attr_mdh = Some 0,
          attr_id = Some None\<rparr>)
   \<and> add 1 \<lparr>links = [], name = ''noname'', manufacturer = [], base = [], tool = [], gravity = []\<rparr>
       [LinkObj \<lparr>offset = 0, qlim = (0, 0), flip = False, attr_d = Some 0, attr_alpha = Some 0,
          attr_theta = Some 0, attr_a = Some 0, attr_sigma = Some 0, attr_mdh = Some 0,
          attr_id = Some None\<rparr>,
        LinkObj \<lparr>offset = 0, qlim = (0, 0), flip = False, attr_d = Some 0, attr_alpha = Some 0,
          attr_theta = Some 0, attr_a = Some 0, attr_sigma = Some 1, attr_mdh = Some 0,
          attr_id = Some None\<rparr>] 0 1
     = (Inr 2,
        [LinkObj \<lparr>offset = 0, qlim = (0, 0), flip = False, attr_d = Some 0, attr_alpha = Some 0,
          attr_theta = Some 0, attr_a = Some 0, attr_sigma = Some 0, attr_mdh = Some 0,
          attr_id = Some (Some 1)\<rparr>,
         LinkObj \<lparr>offset = 0, qlim = (0, 0), flip = False, attr_d = Some 0, attr_alpha = Some 0,
          attr_theta = Some 0, attr_a = Some 0, attr_sigma = Some 1, attr_mdh = Some 0,
          attr_id = Some (Some 2)\<rparr>,
         RobotObj \<lparr>links = [0, 1], name = ''noname'', manufacturer = [], base = [], tool = [], gravity = []\<rparr>])
   \<and> lookup (snd (add 1 \<lparr>links = [], name = ''noname'', manufacturer = [], base = [], tool = [], gravity = []\<rparr>
       [LinkObj \<lparr>offset = 0, qlim = (0, 0), flip = False, attr_d = Some 0, attr_alpha = Some 0,
          attr_theta = Some 0, attr_a = Some 0, attr_sigma = Some 0, attr_mdh = Some 0,
          attr_id = Some None\<rparr>,
        LinkObj \<lparr>offset = 0, qlim = (0, 0), flip = False, attr_d = Some 0, attr_alpha = Some 0,
          attr_theta = Some 0, attr_a = Some 0, attr_sigma = Some 1, attr_mdh = Some 0,
          attr_id = Some None\<rparr>] 0 1)) 0
     \<noteq> lookup [LinkObj \<lparr>offset = 0, qlim = (0, 0), flip = False, attr_d = Some 0, attr_alpha = Some 0,
          attr_theta = Some 0, attr_a = Some 0, attr_sigma = Some 0, attr_mdh = Some 0,
          attr_id = Some None\<rparr>,
        LinkObj \<lparr>offset = 0, qlim = (0, 0), flip = False, attr_d = Some 0, attr_alpha = Some 0,
          attr_theta = Some 0, attr_a = Some 0, attr_sigma = Some 1, attr_mdh = Some 0,
          attr_id = Some None\<rparr>] 0"
  by (simp add: add_def lookup_def DHRobot_def assign_id_def set_id_def Let_def)

text \<open>
  C5, amended. \<^verbatim>\<open>linkA + other\<close>: when \<open>other\<close> is a link the result is a new chain (a
  reference that was not in the store) with the links \<open>[linkA, other]\<close>; when \<open>other\<close>
  is a chain the result is a new chain with \<open>linkA\<close> followed by the links of \<open>other\<close> in
  order and with the name, manufacturer, base, tool and gravity of \<open>other\<close>; for any other
  operand it raises TypeError (the specification's IncompatibleOperand) and changes
  nothing. In the two successful cases the store changes in one respect only: the new
  chain assigns the \<open>id\<close> of the links it holds, in order of position. Every other field of
  every link, every object that is not a link of the new chain, and a chain operand
  itself are as they were.
\<close>

theorem add_builds_chain:
  "(lookup h L = Some (LinkObj l) \<longrightarrow>
      add first dflt h self L =
        (Inr (length h),
         assign_ids h [self, L] first
         @ [RobotObj \<lparr>links = [self, L], name = name dflt,
                         manufacturer = manufacturer dflt, base = base dflt,
                         tool = tool dflt, gravity = gravity dflt\<rparr>]) \<and>
      (\<forall>r < length h. r \<notin> set [self, L] \<longrightarrow>
         lookup (snd (add first dflt h self L)) r = lookup h r)) \<and>
   (lookup h L = Some (RobotObj R) \<longrightarrow>
      add first dflt h self L =
        (Inr (length h),
         assign_ids h (self # links R) first
         @ [RobotObj \<lparr>links = self # links R, name = name R,
                         manufacturer = manufacturer R, base = base R,
                         tool = tool R, gravity = gravity R\<rparr>]) \<and>
      (\<forall>r < length h. r \<notin> set (self # links R) \<longrightarrow>
         lookup (snd (add first dflt h self L)) r = lookup h r)) \<and>
   (lookup h L = Some OtherObj \<longrightarrow>
      add first dflt h self L =
        (Inl (TypeError ''Cannot add a Link with a non Link object''), h)) \<and>
   (\<forall>r < length h.
      rel_option same_but_id (lookup h r) (lookup (snd (add first dflt h self L)) r))"
proof (intro conjI impI allI)
  fix r
  assume "r < length h"
  moreover obtain rs objs where "snd (add first dflt h self L) = assign_ids h rs first @ objs"
    using add_store by blast
  ultimately show
    "rel_option same_but_id (lookup h r) (lookup (snd (add first dflt h self L)) r)"
    by (simp add: lookup_assign_ids_same)
next
  fix r
  assume link: "lookup h L = Some (LinkObj l)"
  assume "r < length h" and "r \<notin> set [self, L]"
  then have "lookup (assign_ids h [self, L] first @ objs) r = lookup h r" for objs
    by (rule lookup_assign_ids_other)
  with link show "lookup (snd (add first dflt h self L)) r = lookup h r"
    by (simp only: add_link snd_conv)
next
  fix r
  assume robot: "lookup h L = Some (RobotObj R)"
  assume "r < length h" and "r \<notin> set (self # links R)"
  then have "lookup (assign_ids h (self # links R) first @ objs) r = lookup h r" for objs
    by (rule lookup_assign_ids_other)
  with robot show "lookup (snd (add first dflt h self L)) r = lookup h r"
    by (simp only: add_robot snd_conv)
qed (simp_all add: add_link add_robot add_other)

theorem add_builds_chain_witness:
  "add 1 \<lparr>links = [], name = ''noname'', manufacturer = [], base = [], tool = [], gravity = []\<rparr>
       [LinkObj \<lparr>offset = 0, qlim = (0, 0), flip = False, attr_d = Some 0, attr_alpha = Some 0,
          attr_theta = Some 0, attr_a = Some 0, attr_sigma = Some 0, attr_mdh = Some 0,
          attr_id = Some None\<rparr>,
        LinkObj \<lparr>offset = 0, qlim = (0, 0), flip = False, attr_d = Some 0, attr_alpha = Some 0,
          attr_theta = Some 0, attr_a = Some 0, attr_sigma = Some 1, attr_mdh = Some 0,
          attr_id = Some None\<rparr>,
        RobotObj \<lparr>links = [1], name = ''arm'', manufacturer = ''acme'', base = [], tool = [], gravity = [0, 0, 9]\<rparr>,
        OtherObj] 0 1
     = (Inr 4,
        [LinkObj \<lparr>offset = 0, qlim = (0, 0), flip = False, attr_d = Some 0, attr_alpha = Some 0,
          attr_theta = Some 0, attr_a = Some 0, attr_sigma = Some 0, attr_mdh = Some 0,
          attr_id = Some (Some 1)\<rparr>,
        LinkObj \<lparr>offset = 0, qlim = (0, 0), flip = False, attr_d = Some 0, attr_alpha = Some 0,
          attr_theta = Some 0, attr_a = Some 0, attr_sigma = Some 1, attr_mdh = Some 0,
          attr_id = Some (Some 2)\<rparr>,
        RobotObj \<lparr>links = [1], name = ''arm'', manufacturer = ''acme'', base = [], tool = [], gravity = [0, 0, 9]\<rparr>,
        OtherObj,
        RobotObj \<lparr>links = [0, 1], name = ''noname'', manufacturer = [], base = [], tool = [], gravity = []\<rparr>])
   \<and> add 1 \<lparr>links = [], name = ''noname'', manufacturer = [], base = [], tool = [], gravity = []\<rparr>
       [LinkObj \<lparr>offset = 0, qlim = (0, 0), flip = False, attr_d = Some 0, attr_alpha = Some 0,
          attr_theta = Some 0, attr_a = Some 0, attr_sigma = Some 0, attr_mdh = Some 0,
          attr_id = Some None\<rparr>,
        LinkObj \<lparr>offset = 0, qlim = (0, 0), flip = False, attr_d = Some 0, attr_alpha = Some 0,
          attr_theta = Some 0, attr_a = Some 0, attr_sigma = Some 1, attr_mdh = Some 0,
          attr_id = Some None\<rparr>,
        RobotObj \<lparr>links = [1], name = ''arm'', manufacturer = ''acme'', base = [], tool = [], gravity = [0, 0, 9]\<rparr>,
        OtherObj] 0 2
     = (Inr 4,
        [LinkObj \<lparr>offset = 0, qlim = (0, 0), flip = False, attr_d = Some 0, attr_alpha = Some 0,
          attr_theta = Some 0, attr_a = Some 0, attr_sigma = Some 0, attr_mdh = Some 0,
          attr_id = Some (Some 1)\<rparr>,
        LinkObj \<lparr>offset = 0, qlim = (0, 0), flip = False, attr_d = Some 0, attr_alpha = Some 0,
          attr_theta = Some 0, attr_a = Some 0, attr_sigma = Some 1, attr_mdh = Some 0,
          attr_id = Some (Some 2)\<rparr>,
        RobotObj \<lparr>links = [1], name = ''arm'', manufacturer = ''acme'', base = [], tool = [], gravity = [0, 0, 9]\<rparr>,
        OtherObj,
        RobotObj \<lparr>links = [0, 1], name = ''arm'', manufacturer = ''acme'', base = [], tool = [], gravity = [0, 0, 9]\<rparr>])
   \<and> add 1 \<lparr>links = [], name = ''noname'', manufacturer = [], base = [], tool = [], gravity = []\<rparr>
       [LinkObj \<lparr>offset = 0, qlim = (0, 0), flip = False, attr_d = Some 0, attr_alpha = Some 0,
          attr_theta = Some 0, attr_a = Some 0, attr_sigma = Some 0, attr_mdh = Some 0,
          attr_id = Some None\<rparr>,
        LinkObj \<lparr>offset = 0, qlim = (0, 0), flip = False, attr_d = Some 0, attr_alpha = Some 0,
          attr_theta = Some 0, attr_a = Some 0, attr_sigma = Some 1, attr_mdh = Some 0,
          attr_id = Some None\<rparr>,
        RobotObj \<lparr>links = [1], name = ''arm'', manufacturer = ''acme'', base = [], tool = [], gravity = [0, 0, 9]\<rparr>,
        OtherObj] 0 3
     = (Inl (TypeError ''Cannot add a Link with a non Link object''),
        [LinkObj \<lparr>offset = 0, qlim = (0, 0), flip = False, attr_d = Some 0, attr_alpha = Some 0,
          attr_theta = Some 0, attr_a = Some 0, attr_sigma = Some 0, attr_mdh = Some 0,
          attr_id = Some None\<rparr>,
        LinkObj \<lparr>offset = 0, qlim = (0, 0), flip = False, attr_d = Some 0, attr_alpha = Some 0,
          attr_theta = Some 0, attr_a = Some 0, attr_sigma = Some 1, attr_mdh = Some 0,
          attr_id = Some None\<rparr>,
        RobotObj \<lparr>links = [1], name = ''arm'', manufacturer = ''acme'', base = [], tool = [], gravity = [0, 0, 9]\<rparr>,
        OtherObj])
   \<and> lookup (snd (add 1 \<lparr>links = [], name = ''noname'', manufacturer = [], base = [], tool = [], gravity = []\<rparr>
       [LinkObj \<lparr>offset = 0, qlim = (0, 0), flip = False, attr_d = Some 0, attr_alpha = Some 0,
          attr_theta = Some 0, attr_a = Some 0, attr_sigma = Some 0, attr_mdh = Some 0,
          attr_id = Some None\<rparr>,
        LinkObj \<lparr>offset = 0, qlim = (0, 0), flip = False, attr_d = Some 0, attr_alpha = Some 0,
          attr_theta = Some 0, attr_a = Some 0, attr_sigma = Some 1, attr_mdh = Some 0,
          attr_id = Some None\<rparr>,
        RobotObj \<lparr>links = [1], name = ''arm'', manufacturer = ''acme'', base = [], tool = [], gravity = [0, 0, 9]\<rparr>,
        OtherObj] 0 1)) 2
     = Some (RobotObj \<lparr>links = [1], name = ''arm'', manufacturer = ''acme'', base = [], tool = [], gravity = [0, 0, 9]\<rparr>)"
  using add_builds_chain [where first = 1 and self = 0 and L = 1
        and l = "\<lparr>offset = 0, qlim = (0, 0), flip = False, attr_d = Some 0, attr_alpha = Some 0,
          attr_theta = Some 0, attr_a = Some 0, attr_sigma = Some 1, attr_mdh = Some 0,
          attr_id = Some None\<rparr>"
        and R = "\<lparr>links = [1], name = ''arm'', manufacturer = ''acme'', base = [], tool = [], gravity = [0, 0, 9]\<rparr>"
        and dflt = "\<lparr>links = [], name = ''noname'', manufacturer = [], base = [], tool = [], gravity = []\<rparr>"
        and h = "[LinkObj \<lparr>offset = 0, qlim = (0, 0), flip = False, attr_d = Some 0, attr_alpha = Some 0,
          attr_theta = Some 0, attr_a = Some 0, attr_sigma = Some 0, attr_mdh = Some 0,
          attr_id = Some None\<rparr>,
        LinkObj \<lparr>offset = 0, qlim = (0, 0), flip = False, attr_d = Some 0, attr_alpha = Some 0,
          attr_theta = Some 0, attr_a = Some 0, attr_sigma = Some 1, attr_mdh = Some 0,
          attr_id = Some None\<rparr>,
        RobotObj \<lparr>links = [1], name = ''arm'', manufacturer = ''acme'', base = [], tool = [], gravity = [0, 0, 9]\<rparr>,
        OtherObj]"]
    add_builds_chain [where first = 1 and self = 0 and L = 2
        and l = "\<lparr>offset = 0, qlim = (0, 0), flip = False, attr_d = Some 0, attr_alpha = Some 0,
          attr_theta = Some 0, attr_a = Some 0, attr_sigma = Some 1, attr_mdh = Some 0,
          attr_id = Some None\<rparr>"
        and R = "\<lparr>links = [1], name = ''arm'', manufacturer = ''acme'', base = [], tool = [], gravity = [0, 0, 9]\<rparr>"
        and dflt = "\<lparr>links = [], name = ''noname'', manufacturer = [], base = [], tool = [], gravity = []\<rparr>"
        and h = "[LinkObj \<lparr>offset = 0, qlim = (0, 0), flip = False, attr_d = Some 0, attr_alpha = Some 0,
          attr_theta = Some 0, attr_a = Some 0, attr_sigma = Some 0, attr_mdh = Some 0,
          attr_id = Some None\<rparr>,
        LinkObj \<lparr>offset = 0, qlim = (0, 0), flip = False, attr_d = Some 0, attr_alpha = Some 0,
          attr_theta = Some 0, attr_a = Some 0, attr_sigma = Some 1, attr_mdh = Some 0,
          attr_id = Some None\<rparr>,
        RobotObj \<lparr>links = [1], name = ''arm'', manufacturer = ''acme'', base = [], tool = [], gravity = [0, 0, 9]\<rparr>,
        OtherObj]"]
    add_builds_chain [where first = 1 and self = 0 and L = 3
        and l = "\<lparr>offset = 0, qlim = (0, 0), flip = False, attr_d = Some 0, attr_alpha = Some 0,
          attr_theta = Some 0, attr_a = Some 0, attr_sigma = Some 1, attr_mdh = Some 0,
          attr_id = Some None\<rparr>"
        and R = "\<lparr>links = [1], name = ''arm'', manufacturer = ''acme'', base = [], tool = [], gravity = [0, 0, 9]\<rparr>"
        and dflt = "\<lparr>links = [], name = ''noname'', manufacturer = [], base = [], tool = [], gravity = []\<rparr>"
        and h = "[LinkObj \<lparr>offset = 0, qlim = (0, 0), flip = False, attr_d = Some 0, attr_alpha = Some 0,
          attr_theta = Some 0, attr_a = Some 0, attr_sigma = Some 0, attr_mdh = Some 0,
          attr_id = Some None\<rparr>,
        LinkObj \<lparr>offset = 0, qlim = (0, 0), flip = False, attr_d = Some 0, attr_alpha = Some 0,
          attr_theta = Some 0, attr_a = Some 0, attr_sigma = Some 1, attr_mdh = Some 0,
          attr_id = Some None\<rparr>,
        RobotObj \<lparr>links = [1], name = ''arm'', manufacturer = ''acme'', base = [], tool = [], gravity = [0, 0, 9]\<rparr>,
        OtherObj]"]
  by (simp add: lookup_def assign_id_def set_id_def)

end
